theory Spec2Isabelle
  imports Complex_Main
begin

section \<open>Values of the JavaScript runtime\<close>

text \<open>
  The code of \<^verbatim>\<open>ui/desktop/src/components/settings/api_keys/utils.tsx\<close> works on
  values obtained from \<^verbatim>\<open>response.json()\<close>. Its TypeScript types are erased at run time
  (\<^verbatim>\<open>item: any\<close>, \<^verbatim>\<open>as Record<string, ProviderResponse>\<close>), so the model keeps the
  values untyped.

  \<open>jsval\<close> is a value that \<^verbatim>\<open>response.json()\<close> can return. A finite number is kept by
  its value (\<open>JNum\<close>); \<open>JInf\<close> is \<^verbatim>\<open>Infinity\<close> (\<open>True\<close>) or \<^verbatim>\<open>-Infinity\<close> (\<open>False\<close>),
  which a number literal beyond the range of a double such as \<^verbatim>\<open>1e400\<close> is parsed to.
  The code only ever tests a number for being zero. \<open>JObj kvs\<close> lists the own properties of
  an object, whose names are distinct, in the order in which \<^verbatim>\<open>Object.values\<close>
  enumerates them.
  \<^verbatim>\<open>undefined\<close> is not a JSON value: an expression that may evaluate to it has the
  type \<open>jsval option\<close>, with \<open>None\<close> for \<^verbatim>\<open>undefined\<close>.
\<close>

datatype jsval =
    JNull
  | JBool bool
  | JNum rat
  | JInf bool
  | JStr string
  | JArr "jsval list"
  | JObj "(string \<times> jsval) list"

text \<open>
  What the code can raise: \<^verbatim>\<open>new Error(message)\<close> thrown by the code itself, the
  \<^verbatim>\<open>TypeError\<close> of the runtime (a property read on \<^verbatim>\<open>null\<close>, a call of something
  that is not a function, \<^verbatim>\<open>Object.values(null)\<close>; also what \<^verbatim>\<open>fetch\<close> rejects with
  when the network fails), and the \<^verbatim>\<open>SyntaxError\<close> of \<^verbatim>\<open>response.json()\<close> on a body
  that is not JSON.
\<close>

datatype error = Error string | TypeError | SyntaxError

text \<open>Truthiness, as tested by \<^verbatim>\<open>||\<close> and by \<^verbatim>\<open>Array.prototype.some\<close>.\<close>

fun truthy :: "jsval \<Rightarrow> bool" where
  "truthy JNull = False"
| "truthy (JBool b) = b"
| "truthy (JNum n) = (n \<noteq> 0)"
| "truthy (JInf s) = True"
| "truthy (JStr s) = (s \<noteq> [])"
| "truthy (JArr xs) = True"
| "truthy (JObj kvs) = True"

text \<open>\<^verbatim>\<open>x || d\<close> where \<open>x\<close> may be \<^verbatim>\<open>undefined\<close>.\<close>

definition js_or :: "jsval option \<Rightarrow> jsval \<Rightarrow> jsval" where
  "js_or x d = (case x of None \<Rightarrow> d | Some v \<Rightarrow> if truthy v then v else d)"

text \<open>
  \<open>lookup v k\<close> is the property read \<^verbatim>\<open>v.k\<close> on a value that is not \<^verbatim>\<open>null\<close>, for the
  property names the code reads (\<^verbatim>\<open>id\<close>, \<^verbatim>\<open>details\<close>, \<^verbatim>\<open>name\<close>, \<^verbatim>\<open>description\<close>,
  \<^verbatim>\<open>models\<close>, \<^verbatim>\<open>required_keys\<close>, \<^verbatim>\<open>secret_status\<close>, \<^verbatim>\<open>is_set\<close>): none of them is a
  property of the prototypes of objects, arrays, strings, numbers or booleans, so only
  an own property of an object is found. \<open>get_prop\<close> adds the \<^verbatim>\<open>TypeError\<close> of a read
  on \<^verbatim>\<open>null\<close>, and \<open>opt_chain\<close> is \<^verbatim>\<open>d?.k\<close>.
\<close>

fun lookup :: "jsval \<Rightarrow> string \<Rightarrow> jsval option" where
  "lookup (JObj kvs) k = map_of kvs k"
| "lookup v k = None"

definition get_prop :: "jsval \<Rightarrow> string \<Rightarrow> error + jsval option" where
  "get_prop v k = (if v = JNull then Inl TypeError else Inr (lookup v k))"

definition opt_chain :: "jsval option \<Rightarrow> string \<Rightarrow> jsval option" where
  "opt_chain d k = (case d of None \<Rightarrow> None | Some v \<Rightarrow> if v = JNull then None else lookup v k)"

text \<open>
  \<^verbatim>\<open>Object.values\<close>: the property values of an object, the elements of an array, the
  characters of a string, nothing for a number or a boolean, a \<^verbatim>\<open>TypeError\<close> for
  \<^verbatim>\<open>null\<close>.
\<close>

fun Object_values :: "jsval \<Rightarrow> error + jsval list" where
  "Object_values JNull = Inl TypeError"
| "Object_values (JObj kvs) = Inr (map snd kvs)"
| "Object_values (JArr xs) = Inr xs"
| "Object_values (JStr s) = Inr (map (\<lambda>c. JStr [c]) s)"
| "Object_values (JBool b) = Inr []"
| "Object_values (JNum n) = Inr []"
| "Object_values (JInf s) = Inr []"

text \<open>
  \<^verbatim>\<open>Array.prototype.map\<close> and \<^verbatim>\<open>Array.prototype.filter\<close> with a callback that may
  raise: the elements are visited from left to right and the first error ends the call.
\<close>

fun map_e :: "('a \<Rightarrow> error + 'b) \<Rightarrow> 'a list \<Rightarrow> error + 'b list" where
  "map_e f [] = Inr []"
| "map_e f (x # xs) =
     (case f x of
        Inl e \<Rightarrow> Inl e
      | Inr y \<Rightarrow> (case map_e f xs of Inl e \<Rightarrow> Inl e | Inr ys \<Rightarrow> Inr (y # ys)))"

fun filter_e :: "('a \<Rightarrow> error + bool) \<Rightarrow> 'a list \<Rightarrow> error + 'a list" where
  "filter_e f [] = Inr []"
| "filter_e f (x # xs) =
     (case f x of
        Inl e \<Rightarrow> Inl e
      | Inr b \<Rightarrow> (case filter_e f xs of
                   Inl e \<Rightarrow> Inl e
                 | Inr ys \<Rightarrow> Inr (if b then x # ys else ys)))"

section \<open>The environment: configuration, HTTP and the console\<close>

record request =
  method' :: string
  url :: string
  headers :: "(string \<times> string) list"
  body :: "jsval option"

text \<open>
  The body of a request is kept as the JSON value its text denotes (a body holds no
  \<open>JInf\<close>). \<open>json\<close> is the
  outcome of \<^verbatim>\<open>response.json()\<close>, which rejects when the body is not JSON.
\<close>

record response =
  ok :: bool
  statusText :: string
  json :: "error + jsval"

text \<open>
  \<^verbatim>\<open>getApiUrl\<close> and \<^verbatim>\<open>getSecretKey\<close> are imported from \<^verbatim>\<open>../../../config\<close> and
  \<^verbatim>\<open>fetch\<close> is the HTTP client of the runtime; all three are parameters of the model.
  \<open>fetch\<close> answers a request with a response or rejects with an error.
\<close>

record env =
  getApiUrl :: "string \<Rightarrow> string"
  getSecretKey :: string
  fetch :: "request \<Rightarrow> error + response"

text \<open>
  What a call does to the outside, in order: the requests it sends and the lines it
  writes to the console. A call returns its trace and its outcome.
\<close>

datatype event =
    Fetch request
  | Console_log string "jsval option"
  | Console_error string error

type_synonym 'a io = "event list \<times> (error + 'a)"

section \<open>getProvidersList\<close>

record Provider =
  id' :: "jsval option"
  name :: jsval
  description :: jsval
  models :: jsval
  requiredKeys :: jsval

text \<open>
  The callback of \<^verbatim>\<open>data.map\<close> (lines 72 to 78). \<^verbatim>\<open>item.id\<close> is read first and
  raises on \<^verbatim>\<open>null\<close>; the four reads through \<^verbatim>\<open>item.details?.\<close> cannot raise.
\<close>

definition formatItem :: "jsval \<Rightarrow> error + Provider" where
  "formatItem item =
     (case get_prop item ''id'' of
        Inl e \<Rightarrow> Inl e
      | Inr i \<Rightarrow>
          Inr \<lparr> id' = i,
                name = js_or (opt_chain (lookup item ''details'') ''name'')
                         (JStr ''Unknown Provider''),
                description = js_or (opt_chain (lookup item ''details'') ''description'')
                                (JStr ''No description available.''),
                models = js_or (opt_chain (lookup item ''details'') ''models'') (JArr []),
                requiredKeys = js_or (opt_chain (lookup item ''details'') ''required_keys'')
                                 (JArr []) \<rparr>)"

text \<open>
  \<^verbatim>\<open>data.map(...)\<close> on the parsed body: only an array has a \<^verbatim>\<open>map\<close> function; on every
  other JSON value the call raises a \<^verbatim>\<open>TypeError\<close>.
\<close>

fun formatResponse :: "jsval \<Rightarrow> error + Provider list" where
  "formatResponse (JArr items) = map_e formatItem items"
| "formatResponse v = Inl TypeError"

definition providersRequest :: "env \<Rightarrow> request" where
  "providersRequest env =
     \<lparr> method' = ''GET'', url = getApiUrl env ''/agent/providers'', headers = [],
       body = None \<rparr>"

definition getProvidersList :: "env \<Rightarrow> Provider list io" where
  "getProvidersList env =
     (case fetch env (providersRequest env) of
        Inl e \<Rightarrow> ([Fetch (providersRequest env)], Inl e)
      | Inr response \<Rightarrow>
          if \<not> ok response then
            ([Fetch (providersRequest env)],
             Inl (Error (''Failed to fetch providers: '' @ statusText response)))
          else
            (case json response of
               Inl e \<Rightarrow> ([Fetch (providersRequest env)], Inl e)
             | Inr data \<Rightarrow>
                 ([Fetch (providersRequest env), Console_log ''Raw API Response:'' (Some data)],
                  formatResponse data)))"

section \<open>getSecretsSettings\<close>

text \<open>
  \<^verbatim>\<open>JSON.stringify\<close>, given by the JSON value that the text it writes denotes: a number
  that is not finite is written as \<^verbatim>\<open>null\<close>, wherever it occurs in the value; everything
  else is written as it is.
\<close>

fun stringify :: "jsval \<Rightarrow> jsval" where
  "stringify (JInf s) = JNull"
| "stringify (JArr xs) = JArr (map stringify xs)"
| "stringify (JObj kvs) = JObj (map (\<lambda>kv. (fst kv, stringify (snd kv))) kvs)"
| "stringify JNull = JNull"
| "stringify (JBool b) = JBool b"
| "stringify (JNum n) = JNum n"
| "stringify (JStr s) = JStr s"

text \<open>
  \<^verbatim>\<open>JSON.stringify({ providers: providerIds })\<close> (lines 43 to 45): an element of the
  array that is \<^verbatim>\<open>undefined\<close> is written as \<^verbatim>\<open>null\<close>.
\<close>

definition stringify_element :: "jsval option \<Rightarrow> jsval" where
  "stringify_element x = (case x of None \<Rightarrow> JNull | Some v \<Rightarrow> stringify v)"

definition secretsRequest :: "env \<Rightarrow> jsval option list \<Rightarrow> request" where
  "secretsRequest env providerIds =
     \<lparr> method' = ''POST'', url = getApiUrl env ''/secrets/providers'',
       headers = [(''Content-Type'', ''application/json''),
                  (''X-Secret-Key'', getSecretKey env)],
       body = Some (JObj [(''providers'', JArr (map stringify_element providerIds))]) \<rparr>"

definition getSecretsSettings :: "env \<Rightarrow> jsval io" where
  "getSecretsSettings env =
     (case getProvidersList env of
        (t, Inl e) \<Rightarrow> (t, Inl e)
      | (t, Inr providerList) \<Rightarrow>
          (let providerIds = map id' providerList;
               req = secretsRequest env providerIds
           in case fetch env req of
                Inl e \<Rightarrow> (t @ [Fetch req], Inl e)
              | Inr response \<Rightarrow>
                  if \<not> ok response then
                    (t @ [Fetch req], Inl (Error ''Failed to fetch secrets''))
                  else
                    (case json response of
                       Inl e \<Rightarrow> (t @ [Fetch req], Inl e)
                     | Inr data \<Rightarrow>
                         (t @ [Fetch req, Console_log ''raw response'' (Some data)],
                          Inr data))))"

section \<open>getActiveProviders\<close>

text \<open>
  \<^verbatim>\<open>apiKeyStatus.some((key) => key.is_set)\<close>: stops at the first key whose
  \<^verbatim>\<open>is_set\<close> is truthy; reading \<^verbatim>\<open>is_set\<close> of \<^verbatim>\<open>null\<close> raises.
\<close>

fun some_is_set :: "jsval list \<Rightarrow> error + bool" where
  "some_is_set [] = Inr False"
| "some_is_set (key # keys) =
     (case get_prop key ''is_set'' of
        Inl e \<Rightarrow> Inl e
      | Inr None \<Rightarrow> some_is_set keys
      | Inr (Some v) \<Rightarrow> if truthy v then Inr True else some_is_set keys)"

text \<open>The callback of \<^verbatim>\<open>filter\<close> (lines 16 to 19).\<close>

definition hasSetKey :: "jsval \<Rightarrow> error + bool" where
  "hasSetKey provider =
     (case get_prop provider ''secret_status'' of
        Inl e \<Rightarrow> Inl e
      | Inr s \<Rightarrow>
          (case Object_values (js_or s (JObj [])) of
             Inl e \<Rightarrow> Inl e
           | Inr apiKeyStatus \<Rightarrow> some_is_set apiKeyStatus))"

text \<open>The callback of \<^verbatim>\<open>map\<close> (line 20).\<close>

definition providerName :: "jsval \<Rightarrow> error + jsval" where
  "providerName provider =
     (case get_prop provider ''name'' of
        Inl e \<Rightarrow> Inl e
      | Inr n \<Rightarrow> Inr (js_or n (JStr ''Unknown Provider'')))"

text \<open>Lines 15 to 20: \<^verbatim>\<open>Object.values(secretsSettings).filter(...).map(...)\<close>.\<close>

definition activeProviders :: "jsval \<Rightarrow> error + jsval list" where
  "activeProviders secretsSettings =
     (case Object_values secretsSettings of
        Inl e \<Rightarrow> Inl e
      | Inr providers \<Rightarrow>
          (case filter_e hasSetKey providers of
             Inl e \<Rightarrow> Inl e
           | Inr active \<Rightarrow> map_e providerName active))"

text \<open>The body of the \<^verbatim>\<open>try\<close> block (lines 7 to 24).\<close>

definition getActiveProviders_try :: "env \<Rightarrow> jsval list io" where
  "getActiveProviders_try env =
     (case getSecretsSettings env of
        (t, Inl e) \<Rightarrow> (Console_log ''here 2'' None # t, Inl e)
      | (t, Inr secretsSettings) \<Rightarrow>
          (case activeProviders secretsSettings of
             Inl e \<Rightarrow> (Console_log ''here 2'' None # t @ [Console_log ''here 3'' None], Inl e)
           | Inr names \<Rightarrow>
               (Console_log ''here 2'' None # t
                  @ [Console_log ''here 3'' None, Console_log ''here 4'' None],
                Inr names)))"

text \<open>
  The whole function: whatever the \<^verbatim>\<open>try\<close> block raises is written to the console
  and replaced by the empty array.
\<close>

definition getActiveProviders :: "env \<Rightarrow> jsval list io" where
  "getActiveProviders env =
     (case getActiveProviders_try env of
        (t, Inl e) \<Rightarrow>
          (Console_log ''here 1'' None # t
             @ [Console_error ''Failed to get active providers:'' e],
           Inr [])
      | (t, Inr names) \<Rightarrow> (Console_log ''here 1'' None # t, Inr names))"

section \<open>The declared types and the wording of the specification\<close>

text \<open>
  Modelled from the spec: the types \<^verbatim>\<open>SecretStatus\<close> and \<^verbatim>\<open>ProviderResponse\<close>, which
  the code imports from \<^verbatim>\<open>./types\<close> (a file that is not part of the sources at hand).
  The specification gives them as \<^verbatim>\<open>{ is_set: boolean }\<close> (additional fields allowed)
  and \<^verbatim>\<open>{ name: string (optional), secret_status: mapping from key-name to SecretStatus
  (optional) }\<close>. The predicates say that an untyped value has the declared shape.
\<close>

definition is_SecretStatus :: "jsval \<Rightarrow> bool" where
  "is_SecretStatus v =
     (case v of
        JObj kvs \<Rightarrow> (case map_of kvs ''is_set'' of Some (JBool b) \<Rightarrow> True | _ \<Rightarrow> False)
      | _ \<Rightarrow> False)"

definition is_ProviderResponse :: "jsval \<Rightarrow> bool" where
  "is_ProviderResponse v =
     (case v of
        JObj kvs \<Rightarrow>
          (case map_of kvs ''name'' of
             None \<Rightarrow> True
           | Some (JStr s) \<Rightarrow> True
           | _ \<Rightarrow> False) \<and>
          (case map_of kvs ''secret_status'' of
             None \<Rightarrow> True
           | Some (JObj st) \<Rightarrow> list_all is_SecretStatus (map snd st)
           | _ \<Rightarrow> False)
      | _ \<Rightarrow> False)"

text \<open>
  The condition of the specification for a provider to be active: at least one value of
  its \<^verbatim>\<open>secret_status\<close> mapping has \<^verbatim>\<open>is_set == true\<close>.
\<close>

definition some_key_set :: "jsval \<Rightarrow> bool" where
  "some_key_set provider =
     (case lookup provider ''secret_status'' of
        Some (JObj st) \<Rightarrow> list_ex (\<lambda>v. lookup v ''is_set'' = Some (JBool True)) (map snd st)
      | _ \<Rightarrow> False)"

text \<open>
  The display name in the words of the specification: the \<^verbatim>\<open>name\<close> field, and
  \<^verbatim>\<open>"Unknown Provider"\<close> when the field is absent.
\<close>

definition name_or_default_when_absent :: "jsval \<Rightarrow> jsval" where
  "name_or_default_when_absent provider =
     (case lookup provider ''name'' of None \<Rightarrow> JStr ''Unknown Provider'' | Some n \<Rightarrow> n)"

text \<open>The same with the empty name treated like an absent one.\<close>

definition name_or_default_when_absent_or_empty :: "jsval \<Rightarrow> jsval" where
  "name_or_default_when_absent_or_empty provider =
     (case lookup provider ''name'' of
        None \<Rightarrow> JStr ''Unknown Provider''
      | Some n \<Rightarrow> if n = JStr [] then JStr ''Unknown Provider'' else n)"

text \<open>The POST requests of a trace.\<close>

fun posts :: "event list \<Rightarrow> request list" where
  "posts [] = []"
| "posts (Fetch r # t) = (if method' r = ''POST'' then r # posts t else posts t)"
| "posts (ev # t) = posts t"

section \<open>Example environments\<close>

text \<open>
  A backend that answers the catalog GET with \<open>catalog\<close> and the secrets-status POST
  with \<open>secrets\<close>; each answer is a response or a rejection of \<^verbatim>\<open>fetch\<close>.
\<close>

definition backend :: "error + response \<Rightarrow> error + response \<Rightarrow> env" where
  "backend catalog secrets =
     \<lparr> getApiUrl = (\<lambda>path. ''http://127.0.0.1:3000'' @ path),
       getSecretKey = ''test-key'',
       fetch = (\<lambda>req. if method' req = ''GET'' then catalog else secrets) \<rparr>"

definition ok_json :: "jsval \<Rightarrow> error + response" where
  "ok_json v = Inr \<lparr> ok = True, statusText = ''OK'', json = Inr v \<rparr>"

definition status_500 :: "error + response" where
  "status_500 = Inr \<lparr> ok = False, statusText = ''Internal Server Error'', json = Inl SyntaxError \<rparr>"

text \<open>A response with a success status whose body is not JSON.\<close>

definition not_json :: "error + response" where
  "not_json = Inr \<lparr> ok = True, statusText = ''OK'', json = Inl SyntaxError \<rparr>"

text \<open>The secrets-status mapping of the example in the specification.\<close>

definition openai_cohere :: jsval where
  "openai_cohere =
     JObj [(''openai'', JObj [(''name'', JStr ''OpenAI''),
                              (''secret_status'',
                               JObj [(''KEY1'', JObj [(''is_set'', JBool True)])])]),
           (''cohere'', JObj [(''name'', JStr ''Cohere''),
                              (''secret_status'',
                               JObj [(''KEY2'', JObj [(''is_set'', JBool False)])])])]"

text \<open>Entries and mappings used as instances below.\<close>

definition empty_name_secrets :: jsval where
  "empty_name_secrets =
     JObj [(''custom'', JObj [(''name'', JStr []),
                              (''secret_status'',
                               JObj [(''API_KEY'', JObj [(''is_set'', JBool True)])])])]"

definition no_status_entry :: jsval where
  "no_status_entry = JObj [(''name'', JStr ''Ollama'')]"

definition empty_name_item :: jsval where
  "empty_name_item =
     JObj [(''id'', JStr ''openai''),
           (''details'', JObj [(''name'', JStr []),
                               (''description'', JStr ''GPT models''),
                               (''models'', JArr [JStr ''gpt-4o'']),
                               (''required_keys'', JArr [JStr ''OPENAI_API_KEY''])])]"

definition full_item :: jsval where
  "full_item =
     JObj [(''id'', JStr ''openai''),
           (''details'', JObj [(''name'', JStr ''OpenAI''),
                               (''description'', JStr ''GPT models''),
                               (''models'', JArr []),
                               (''required_keys'', JArr [JStr ''OPENAI_API_KEY''])])]"

definition partial_item :: jsval where
  "partial_item =
     JObj [(''id'', JStr ''ollama''),
           (''details'', JObj [(''description'', JStr []),
                               (''models'', JArr [JStr ''llama3''])])]"

definition bare_item :: jsval where
  "bare_item = JObj [(''id'', JStr ''groq'')]"

text \<open>The entry \<^verbatim>\<open>{ "id": 1e400 }\<close> as \<^verbatim>\<open>response.json()\<close> returns it.\<close>

definition overflow_item :: jsval where
  "overflow_item = JObj [(''id'', JInf True)]"

definition same_name_secrets :: jsval where
  "same_name_secrets =
     JObj [(''azure'', JObj [(''name'', JStr ''OpenAI''),
                             (''secret_status'',
                              JObj [(''AZURE_KEY'', JObj [(''is_set'', JBool True)])])]),
           (''openai'', JObj [(''name'', JStr ''OpenAI''),
                              (''secret_status'',
                               JObj [(''OPENAI_API_KEY'', JObj [(''is_set'', JBool True)])])])]"

section \<open>Auxiliary lemmas\<close>

lemma map_e_pure:
  "(\<And>x. x \<in> set xs \<Longrightarrow> f x = Inr (g x)) \<Longrightarrow> map_e f xs = Inr (map g xs)"
  by (induction xs) simp_all

lemma filter_e_pure:
  "(\<And>x. x \<in> set xs \<Longrightarrow> f x = Inr (P x)) \<Longrightarrow> filter_e f xs = Inr (filter P xs)"
  by (induction xs) simp_all

lemma formatItem_not_null:
  "item \<noteq> JNull \<Longrightarrow>
   formatItem item =
     Inr \<lparr> id' = lookup item ''id'',
           name = js_or (opt_chain (lookup item ''details'') ''name'') (JStr ''Unknown Provider''),
           description = js_or (opt_chain (lookup item ''details'') ''description'')
                           (JStr ''No description available.''),
           models = js_or (opt_chain (lookup item ''details'') ''models'') (JArr []),
           requiredKeys = js_or (opt_chain (lookup item ''details'') ''required_keys'') (JArr []) \<rparr>"
  by (simp add: formatItem_def get_prop_def)

lemma getProvidersList_ok:
  "fetch env (providersRequest env) = Inr r \<Longrightarrow> ok r \<Longrightarrow> json r = Inr data \<Longrightarrow>
   getProvidersList env =
     ([Fetch (providersRequest env), Console_log ''Raw API Response:'' (Some data)],
      formatResponse data)"
  by (simp add: getProvidersList_def)

lemma format_items:
  assumes "JNull \<notin> set items"
  shows "\<exists>ps. map_e formatItem items = Inr ps \<and> length ps = length items \<and>
              (\<forall>i<length items. formatItem (items ! i) = Inr (ps ! i))"
proof -
  let ?g = "\<lambda>item. \<lparr> id' = lookup item ''id'',
           name = js_or (opt_chain (lookup item ''details'') ''name'') (JStr ''Unknown Provider''),
           description = js_or (opt_chain (lookup item ''details'') ''description'')
                           (JStr ''No description available.''),
           models = js_or (opt_chain (lookup item ''details'') ''models'') (JArr []),
           requiredKeys = js_or (opt_chain (lookup item ''details'') ''required_keys'') (JArr []) \<rparr>"
  have each: "formatItem x = Inr (?g x)" if "x \<in> set items" for x
    using that assms formatItem_not_null [of x] by auto
  then have "map_e formatItem items = Inr (map ?g items)"
    by (rule map_e_pure)
  moreover have "\<forall>i<length items. formatItem (items ! i) = Inr (map ?g items ! i)"
    using each by simp
  ultimately show ?thesis by simp
qed

lemma some_is_set_typed:
  "list_all is_SecretStatus vs \<Longrightarrow>
   some_is_set vs = Inr (list_ex (\<lambda>v. lookup v ''is_set'' = Some (JBool True)) vs)"
proof (induction vs)
  case Nil
  then show ?case by simp
next
  case (Cons v vs)
  from Cons.prems obtain kvs b where v: "v = JObj kvs" "map_of kvs ''is_set'' = Some (JBool b)"
    by (auto simp: is_SecretStatus_def split: jsval.splits option.splits)
  from Cons have "some_is_set vs = Inr (list_ex (\<lambda>v. lookup v ''is_set'' = Some (JBool True)) vs)"
    by simp
  with v show ?case by (simp add: get_prop_def)
qed

lemma is_ProviderResponseE:
  assumes "is_ProviderResponse p"
  obtains kvs where "p = JObj kvs"
    and "map_of kvs ''name'' = None \<or> (\<exists>s. map_of kvs ''name'' = Some (JStr s))"
    and "map_of kvs ''secret_status'' = None \<or>
         (\<exists>st. map_of kvs ''secret_status'' = Some (JObj st) \<and>
               list_all is_SecretStatus (map snd st))"
proof (cases p)
  case (JObj kvs)
  with assms have n: "case map_of kvs ''name'' of None \<Rightarrow> True | Some (JStr s) \<Rightarrow> True | _ \<Rightarrow> False"
    and s: "case map_of kvs ''secret_status'' of None \<Rightarrow> True
             | Some (JObj st) \<Rightarrow> list_all is_SecretStatus (map snd st) | _ \<Rightarrow> False"
    by (simp_all add: is_ProviderResponse_def)
  from n have "map_of kvs ''name'' = None \<or> (\<exists>s. map_of kvs ''name'' = Some (JStr s))"
    by (cases "map_of kvs ''name''"; simp split: jsval.splits)
  moreover from s have "map_of kvs ''secret_status'' = None \<or>
         (\<exists>st. map_of kvs ''secret_status'' = Some (JObj st) \<and>
               list_all is_SecretStatus (map snd st))"
    by (cases "map_of kvs ''secret_status''"; simp split: jsval.splits)
  ultimately show ?thesis using JObj that by blast
qed (use assms in \<open>simp_all add: is_ProviderResponse_def\<close>)

lemma hasSetKey_typed:
  assumes "is_ProviderResponse p"
  shows "hasSetKey p = Inr (some_key_set p)"
  using assms
proof (rule is_ProviderResponseE)
  fix kvs
  assume p: "p = JObj kvs"
    and "map_of kvs ''secret_status'' = None \<or>
         (\<exists>st. map_of kvs ''secret_status'' = Some (JObj st) \<and>
               list_all is_SecretStatus (map snd st))"
  then show ?thesis
    by (auto simp: hasSetKey_def some_key_set_def get_prop_def js_or_def some_is_set_typed)
qed

lemma providerName_typed:
  assumes "is_ProviderResponse p"
  shows "providerName p = Inr (name_or_default_when_absent_or_empty p)"
  using assms
proof (rule is_ProviderResponseE)
  fix kvs
  assume p: "p = JObj kvs"
    and "map_of kvs ''name'' = None \<or> (\<exists>s. map_of kvs ''name'' = Some (JStr s))"
  then show ?thesis
    by (auto simp: providerName_def name_or_default_when_absent_or_empty_def get_prop_def
          js_or_def)
qed

lemma activeProviders_typed:
  assumes "list_all is_ProviderResponse (map snd kvs)"
  shows "activeProviders (JObj kvs) =
           Inr (map name_or_default_when_absent_or_empty (filter some_key_set (map snd kvs)))"
proof -
  have all: "is_ProviderResponse p" if "p \<in> set (map snd kvs)" for p
    using assms that by (auto simp: list_all_iff)
  have "filter_e hasSetKey (map snd kvs) = Inr (filter some_key_set (map snd kvs))"
    by (rule filter_e_pure) (simp add: all hasSetKey_typed)
  moreover have "map_e providerName (filter some_key_set (map snd kvs)) =
      Inr (map name_or_default_when_absent_or_empty (filter some_key_set (map snd kvs)))"
    by (rule map_e_pure) (simp add: all providerName_typed)
  ultimately show ?thesis by (simp add: activeProviders_def)
qed

lemma getActiveProviders_result:
  "snd (getActiveProviders env) =
     (case snd (getSecretsSettings env) of
        Inl e \<Rightarrow> Inr []
      | Inr d \<Rightarrow> (case activeProviders d of Inl e \<Rightarrow> Inr [] | Inr names \<Rightarrow> Inr names))"
  by (simp add: getActiveProviders_def getActiveProviders_try_def split: prod.splits sum.splits)


lemma getActiveProviders_typed:
  assumes "snd (getSecretsSettings env) = Inr (JObj kvs)"
    and "list_all is_ProviderResponse (map snd kvs)"
  shows "snd (getActiveProviders env) =
           Inr (map name_or_default_when_absent_or_empty (filter some_key_set (map snd kvs)))"
  using assms by (simp add: getActiveProviders_result activeProviders_typed)

lemma posts_append: "posts (t @ u) = posts t @ posts u"
  by (induction t rule: posts.induct) simp_all

lemma posts_getProvidersList: "posts (fst (getProvidersList env)) = []"
  by (simp add: getProvidersList_def providersRequest_def split: sum.splits)

lemma count_list_map_filter:
  "count_list (map f xs) n = length (filter (\<lambda>x. f x = n) xs)"
  by (induction xs) simp_all

lemma getProvidersList_items:
  assumes "fetch env (providersRequest env) = Inr r" and "ok r" and "json r = Inr (JArr items)"
    and "JNull \<notin> set items"
  shows "\<exists>ps. snd (getProvidersList env) = Inr ps \<and> length ps = length items \<and>
              (\<forall>i<length items. formatItem (items ! i) = Inr (ps ! i))"
  using assms by (simp add: getProvidersList_ok format_items)

lemmas model_defs =
  getActiveProviders_def getActiveProviders_try_def activeProviders_def hasSetKey_def
  providerName_def getSecretsSettings_def secretsRequest_def stringify_element_def
  getProvidersList_def providersRequest_def formatItem_def get_prop_def opt_chain_def
  js_or_def backend_def ok_json_def status_500_def not_json_def openai_cohere_def

lemmas example_defs = empty_name_secrets_def no_status_entry_def empty_name_item_def full_item_def
  partial_item_def bare_item_def same_name_secrets_def overflow_item_def

section \<open>getActiveProviders never fails outward\<close>

text \<open>
  C1. \<^verbatim>\<open>getActiveProviders\<close> always returns an array and never an error. Whenever
  \<^verbatim>\<open>getSecretsSettings\<close> fails, for whatever reason (a rejected \<^verbatim>\<open>fetch\<close>, a
  non-success status, a body that is not JSON, an error raised while the catalog is
  reshaped), the result is the empty array and the error is the last thing written to the
  console; the same holds for an error raised inside the \<^verbatim>\<open>try\<close> block after
  \<^verbatim>\<open>getSecretsSettings\<close> has returned.
\<close>

theorem getActiveProviders_never_fails:
  "(\<exists>names. snd (getActiveProviders env) = Inr names) \<and>
   (\<forall>e. snd (getSecretsSettings env) = Inl e \<longrightarrow>
        snd (getActiveProviders env) = Inr [] \<and>
        last (fst (getActiveProviders env)) = Console_error ''Failed to get active providers:'' e) \<and>
   (\<forall>d e. snd (getSecretsSettings env) = Inr d \<and> activeProviders d = Inl e \<longrightarrow>
        snd (getActiveProviders env) = Inr [] \<and>
        last (fst (getActiveProviders env)) = Console_error ''Failed to get active providers:'' e)"
  by (auto simp: getActiveProviders_def getActiveProviders_try_def split: prod.splits sum.splits)

text \<open>
  Instances, one for each kind of failure: a catalog request that \<^verbatim>\<open>fetch\<close> rejects, a
  catalog endpoint that answers with status 500, a secrets endpoint whose body is not
  JSON, and a secrets endpoint that answers with the JSON value \<^verbatim>\<open>null\<close>, on which
  \<^verbatim>\<open>Object.values\<close> raises.
\<close>

theorem getActiveProviders_never_fails_witness:
  "snd (getSecretsSettings (backend (Inl TypeError) status_500)) = Inl TypeError \<and>
   snd (getActiveProviders (backend (Inl TypeError) status_500)) = Inr [] \<and>
   snd (getSecretsSettings (backend status_500 status_500)) =
     Inl (Error ''Failed to fetch providers: Internal Server Error'') \<and>
   snd (getActiveProviders (backend status_500 status_500)) = Inr [] \<and>
   snd (getSecretsSettings (backend (ok_json (JArr [])) not_json)) = Inl SyntaxError \<and>
   snd (getActiveProviders (backend (ok_json (JArr [])) not_json)) = Inr [] \<and>
   snd (getSecretsSettings (backend (ok_json (JArr [])) (ok_json JNull))) = Inr JNull \<and>
   activeProviders JNull = Inl TypeError \<and>
   snd (getActiveProviders (backend (ok_json (JArr [])) (ok_json JNull))) = Inr []"
proof -
  let ?N = "backend (Inl TypeError) status_500"
  let ?S = "backend status_500 status_500"
  let ?J = "backend (ok_json (JArr [])) not_json"
  let ?T = "backend (ok_json (JArr [])) (ok_json JNull)"
  have n: "snd (getSecretsSettings ?N) = Inl TypeError"
    by (simp add: model_defs)
  have s: "snd (getSecretsSettings ?S) =
     Inl (Error ''Failed to fetch providers: Internal Server Error'')"
    by (simp add: model_defs)
  have j: "snd (getSecretsSettings ?J) = Inl SyntaxError"
    by (simp add: model_defs)
  have t: "snd (getSecretsSettings ?T) = Inr JNull \<and> activeProviders JNull = Inl TypeError"
    by (simp add: model_defs)
  from n getActiveProviders_never_fails [of ?N]
  have 1: "snd (getActiveProviders ?N) = Inr []"
    by blast
  from s getActiveProviders_never_fails [of ?S]
  have 2: "snd (getActiveProviders ?S) = Inr []"
    by blast
  from j getActiveProviders_never_fails [of ?J]
  have 3: "snd (getActiveProviders ?J) = Inr []"
    by blast
  from t getActiveProviders_never_fails [of ?T]
  have 4: "snd (getActiveProviders ?T) = Inr []"
    by blast
  from n s j t 1 2 3 4 show ?thesis by blast
qed

section \<open>Which names getActiveProviders returns\<close>

text \<open>
  C2, as stated, fails. The claim takes the display name to be the \<^verbatim>\<open>name\<close> field,
  replaced by \<^verbatim>\<open>"Unknown Provider"\<close> only when the field is absent. For the well-typed
  mapping \<^verbatim>\<open>{ "custom": { name: "", secret_status: { API_KEY: { is_set: true } } } }\<close>
  the only entry qualifies and its \<^verbatim>\<open>name\<close> field is present, so the claim gives
  \<^verbatim>\<open>[""]\<close>; the code returns \<^verbatim>\<open>["Unknown Provider"]\<close>, because \<^verbatim>\<open>||\<close> on line 20
  replaces every falsy name.
\<close>

theorem getActiveProviders_absent_default_counterexample:
  "list_all is_ProviderResponse (map snd [(''custom'', JObj [(''name'', JStr []),
                              (''secret_status'',
                               JObj [(''API_KEY'', JObj [(''is_set'', JBool True)])])])]) \<and>
   snd (getSecretsSettings (backend (ok_json (JArr [])) (ok_json empty_name_secrets))) =
     Inr empty_name_secrets \<and>
   Object_values empty_name_secrets =
     Inr [JObj [(''name'', JStr []),
                (''secret_status'', JObj [(''API_KEY'', JObj [(''is_set'', JBool True)])])]] \<and>
   map name_or_default_when_absent
     (filter some_key_set
        [JObj [(''name'', JStr []),
               (''secret_status'', JObj [(''API_KEY'', JObj [(''is_set'', JBool True)])])]]) =
     [JStr []] \<and>
   snd (getActiveProviders (backend (ok_json (JArr [])) (ok_json empty_name_secrets))) =
     Inr [JStr ''Unknown Provider'']"
  by (simp add: model_defs example_defs is_ProviderResponse_def is_SecretStatus_def
        some_key_set_def name_or_default_when_absent_def)

text \<open>
  C2, amended. For every secrets-status mapping returned by \<^verbatim>\<open>getSecretsSettings\<close> whose
  entries have the declared shape, \<^verbatim>\<open>getActiveProviders\<close> returns, in the order of the
  mapping, the display name of exactly those entries for which at least one value of
  \<^verbatim>\<open>secret_status\<close> has \<^verbatim>\<open>is_set == true\<close>, where the display name is the \<^verbatim>\<open>name\<close>
  field, replaced by \<^verbatim>\<open>"Unknown Provider"\<close> when it is absent or empty. An entry without
  \<^verbatim>\<open>secret_status\<close> is excluded, and the mapping of the example gives \<^verbatim>\<open>["OpenAI"]\<close>.
\<close>

theorem getActiveProviders_names:
  "(\<forall>kvs. snd (getSecretsSettings env) = Inr (JObj kvs) \<and>
          list_all is_ProviderResponse (map snd kvs) \<longrightarrow>
      snd (getActiveProviders env) =
        Inr (map name_or_default_when_absent_or_empty (filter some_key_set (map snd kvs)))) \<and>
   (\<forall>p. p \<noteq> JNull \<and> lookup p ''secret_status'' = None \<longrightarrow>
      hasSetKey p = Inr False \<and> \<not> some_key_set p) \<and>
   (snd (getSecretsSettings env) = Inr openai_cohere \<longrightarrow>
      snd (getActiveProviders env) = Inr [JStr ''OpenAI''])"
proof (intro conjI allI impI)
  fix kvs
  assume "snd (getSecretsSettings env) = Inr (JObj kvs) \<and>
          list_all is_ProviderResponse (map snd kvs)"
  then show "snd (getActiveProviders env) =
        Inr (map name_or_default_when_absent_or_empty (filter some_key_set (map snd kvs)))"
    by (simp add: getActiveProviders_typed)
next
  fix p
  assume p: "p \<noteq> JNull \<and> lookup p ''secret_status'' = None"
  then show "hasSetKey p = Inr False"
    by (simp add: hasSetKey_def get_prop_def js_or_def)
  from p show "\<not> some_key_set p"
    by (simp add: some_key_set_def)
next
  assume "snd (getSecretsSettings env) = Inr openai_cohere"
  then show "snd (getActiveProviders env) = Inr [JStr ''OpenAI'']"
    by (simp add: getActiveProviders_result openai_cohere_def activeProviders_def hasSetKey_def
          providerName_def get_prop_def js_or_def)
qed

text \<open>
  Instances: the mapping of the example, the mapping with the empty name, and an entry
  without \<^verbatim>\<open>secret_status\<close>.
\<close>

theorem getActiveProviders_names_witness:
  "snd (getSecretsSettings (backend (ok_json (JArr [])) (ok_json openai_cohere))) =
     Inr openai_cohere \<and>
   snd (getActiveProviders (backend (ok_json (JArr [])) (ok_json openai_cohere))) =
     Inr [JStr ''OpenAI''] \<and>
   snd (getSecretsSettings (backend (ok_json (JArr [])) (ok_json empty_name_secrets))) =
     Inr empty_name_secrets \<and>
   snd (getActiveProviders (backend (ok_json (JArr [])) (ok_json empty_name_secrets))) =
     Inr [JStr ''Unknown Provider''] \<and>
   no_status_entry \<noteq> JNull \<and> lookup no_status_entry ''secret_status'' = None \<and>
   hasSetKey no_status_entry = Inr False"
proof -
  let ?E = "backend (ok_json (JArr [])) (ok_json openai_cohere)"
  let ?F = "backend (ok_json (JArr [])) (ok_json empty_name_secrets)"
  let ?kvs = "[(''custom'', JObj [(''name'', JStr []),
                 (''secret_status'', JObj [(''API_KEY'', JObj [(''is_set'', JBool True)])])])]"
  have a: "snd (getSecretsSettings ?E) = Inr openai_cohere"
    by (simp add: model_defs)
  have b: "snd (getSecretsSettings ?F) = Inr (JObj ?kvs)"
    by (simp add: model_defs example_defs)
  have c: "list_all is_ProviderResponse (map snd ?kvs)"
    by (simp add: is_ProviderResponse_def is_SecretStatus_def)
  have d: "no_status_entry \<noteq> JNull \<and> lookup no_status_entry ''secret_status'' = None"
    by (simp add: no_status_entry_def)
  have e: "map name_or_default_when_absent_or_empty (filter some_key_set (map snd ?kvs)) =
           [JStr ''Unknown Provider'']"
    by (simp add: some_key_set_def name_or_default_when_absent_or_empty_def)
  from a getActiveProviders_names [of ?E]
  have 1: "snd (getActiveProviders ?E) = Inr [JStr ''OpenAI'']" by blast
  from b c getActiveProviders_names [of ?F]
  have "snd (getActiveProviders ?F) =
        Inr (map name_or_default_when_absent_or_empty (filter some_key_set (map snd ?kvs)))"
    by blast
  with e have 2: "snd (getActiveProviders ?F) = Inr [JStr ''Unknown Provider'']" by simp
  from d getActiveProviders_names [of ?E]
  have 3: "hasSetKey no_status_entry = Inr False" by blast
  from a b 1 2 3 d show ?thesis by (simp add: empty_name_secrets_def)
qed


section \<open>Fields that getProvidersList preserves\<close>

text \<open>
  C3, as stated, fails. The entry
  \<^verbatim>\<open>{ id: "openai", details: { name: "", description: "GPT models", models: ["gpt-4o"],
  required_keys: ["OPENAI_API_KEY"] } }\<close> has all four detail fields present, yet the
  \<^verbatim>\<open>name\<close> of the resulting record is \<^verbatim>\<open>"Unknown Provider"\<close> and not the empty string
  of the entry.
\<close>

theorem getProvidersList_present_name_counterexample:
  "lookup empty_name_item ''details'' =
     Some (JObj [(''name'', JStr []), (''description'', JStr ''GPT models''),
                 (''models'', JArr [JStr ''gpt-4o'']),
                 (''required_keys'', JArr [JStr ''OPENAI_API_KEY''])]) \<and>
   snd (getProvidersList (backend (ok_json (JArr [empty_name_item])) status_500)) =
     Inr [\<lparr> id' = Some (JStr ''openai''), name = JStr ''Unknown Provider'',
            description = JStr ''GPT models'', models = JArr [JStr ''gpt-4o''],
            requiredKeys = JArr [JStr ''OPENAI_API_KEY''] \<rparr>]"
  by (simp add: model_defs example_defs)

text \<open>
  C3, amended. For every raw catalog entry in which all four detail fields are present
  and truthy (for \<^verbatim>\<open>name\<close> and \<^verbatim>\<open>description\<close>: a string that is not empty; an array,
  even an empty one, is always truthy), \<^verbatim>\<open>getProvidersList\<close> maps the entry to a record
  that has exactly the fields of the entry, with no default applied.
\<close>

theorem getProvidersList_preserves_truthy_fields:
  assumes "fetch env (providersRequest env) = Inr r" and "ok r" and "json r = Inr (JArr items)"
    and "JNull \<notin> set items" and "i < length items"
    and "lookup (items ! i) ''details'' = Some d"
    and "lookup d ''name'' = Some n" and "truthy n"
    and "lookup d ''description'' = Some ds" and "truthy ds"
    and "lookup d ''models'' = Some ms" and "truthy ms"
    and "lookup d ''required_keys'' = Some ks" and "truthy ks"
  shows "\<exists>ps. snd (getProvidersList env) = Inr ps \<and> length ps = length items \<and>
              ps ! i = \<lparr> id' = lookup (items ! i) ''id'', name = n, description = ds,
                         models = ms, requiredKeys = ks \<rparr>"
proof -
  from assms(1-4) obtain ps where ps: "snd (getProvidersList env) = Inr ps"
      "length ps = length items" "\<forall>i<length items. formatItem (items ! i) = Inr (ps ! i)"
    using getProvidersList_items by blast
  from assms(4,5) have nn: "items ! i \<noteq> JNull"
    by (metis nth_mem)
  from assms(7) have d: "d \<noteq> JNull" by auto
  from ps(3) assms(5) have "formatItem (items ! i) = Inr (ps ! i)" by simp
  with nn d assms(6-14) have "ps ! i = \<lparr> id' = lookup (items ! i) ''id'', name = n,
      description = ds, models = ms, requiredKeys = ks \<rparr>"
    by (simp add: formatItem_not_null opt_chain_def js_or_def)
  with ps show ?thesis by blast
qed

text \<open>
  An instance: a catalog of two entries, the second with all detail fields present
  (\<^verbatim>\<open>models\<close> being the empty array).
\<close>

theorem getProvidersList_preserves_truthy_fields_witness:
  "\<exists>ps. snd (getProvidersList (backend (ok_json (JArr [bare_item, full_item])) status_500)) = Inr ps \<and>
        length ps = 2 \<and>
        ps ! 1 = \<lparr> id' = Some (JStr ''openai''), name = JStr ''OpenAI'',
                     description = JStr ''GPT models'', models = JArr [],
                     requiredKeys = JArr [JStr ''OPENAI_API_KEY''] \<rparr>"
proof -
  let ?E = "backend (ok_json (JArr [bare_item, full_item])) status_500"
  let ?r = "\<lparr> ok = True, statusText = ''OK'', json = Inr (JArr [bare_item, full_item]) \<rparr>"
  let ?d = "JObj [(''name'', JStr ''OpenAI''), (''description'', JStr ''GPT models''),
                  (''models'', JArr []), (''required_keys'', JArr [JStr ''OPENAI_API_KEY''])]"
  have "\<exists>ps. snd (getProvidersList ?E) = Inr ps \<and> length ps = length [bare_item, full_item] \<and>
              ps ! 1 = \<lparr> id' = lookup ([bare_item, full_item] ! 1) ''id'', name = JStr ''OpenAI'',
                         description = JStr ''GPT models'',
                         models = JArr [], requiredKeys = JArr [JStr ''OPENAI_API_KEY''] \<rparr>"
  proof (rule getProvidersList_preserves_truthy_fields [where r = ?r and d = ?d])
    show "fetch ?E (providersRequest ?E) = Inr ?r"
      by (simp add: backend_def ok_json_def providersRequest_def)
    show "lookup ([bare_item, full_item] ! 1) ''details'' = Some ?d"
      by (simp add: full_item_def)
    show "JNull \<notin> set [bare_item, full_item]"
      by (simp add: example_defs)
  qed simp_all
  then show ?thesis by (simp add: full_item_def numeral_2_eq_2)
qed


section \<open>Defaults of getProvidersList, field by field\<close>

text \<open>
  C4, as stated, fails in its last part (partial presence defaults only the missing
  fields). In the entry
  \<^verbatim>\<open>{ id: "ollama", details: { description: "", models: ["llama3"] } }\<close> the field
  \<^verbatim>\<open>description\<close> is present, and it is replaced by the default all the same.
\<close>

theorem getProvidersList_present_description_counterexample:
  "lookup partial_item ''details'' =
     Some (JObj [(''description'', JStr []), (''models'', JArr [JStr ''llama3''])]) \<and>
   lookup (JObj [(''description'', JStr []), (''models'', JArr [JStr ''llama3''])])
     ''description'' = Some (JStr []) \<and>
   snd (getProvidersList (backend (ok_json (JArr [partial_item])) status_500)) =
     Inr [\<lparr> id' = Some (JStr ''ollama''), name = JStr ''Unknown Provider'',
            description = JStr ''No description available.'', models = JArr [JStr ''llama3''],
            requiredKeys = JArr [] \<rparr>]"
  by (simp add: model_defs example_defs)

text \<open>
  C4, amended. For every raw catalog entry each output field depends on its own source
  field only: it is the source field when that is present and truthy, and the default
  (\<^verbatim>\<open>"Unknown Provider"\<close>, \<^verbatim>\<open>"No description available."\<close>, the empty array, the empty
  array) when the source field is absent or falsy. An entry without \<^verbatim>\<open>details\<close> (or with
  \<^verbatim>\<open>details: null\<close>) yields exactly the four defaults.
\<close>

theorem getProvidersList_defaults_per_field:
  assumes "fetch env (providersRequest env) = Inr r" and "ok r" and "json r = Inr (JArr items)"
    and "JNull \<notin> set items" and "i < length items"
  shows "\<exists>ps. snd (getProvidersList env) = Inr ps \<and> length ps = length items \<and>
           id' (ps ! i) = lookup (items ! i) ''id'' \<and>
           (lookup (items ! i) ''details'' = None \<or> lookup (items ! i) ''details'' = Some JNull \<longrightarrow>
              ps ! i = \<lparr> id' = lookup (items ! i) ''id'', name = JStr ''Unknown Provider'',
                         description = JStr ''No description available.'',
                         models = JArr [], requiredKeys = JArr [] \<rparr>) \<and>
           (\<forall>d. lookup (items ! i) ''details'' = Some d \<and> d \<noteq> JNull \<longrightarrow>
              name (ps ! i) =
                (case lookup d ''name'' of
                   None \<Rightarrow> JStr ''Unknown Provider''
                 | Some v \<Rightarrow> if truthy v then v else JStr ''Unknown Provider'') \<and>
              description (ps ! i) =
                (case lookup d ''description'' of
                   None \<Rightarrow> JStr ''No description available.''
                 | Some v \<Rightarrow> if truthy v then v else JStr ''No description available.'') \<and>
              models (ps ! i) =
                (case lookup d ''models'' of
                   None \<Rightarrow> JArr []
                 | Some v \<Rightarrow> if truthy v then v else JArr []) \<and>
              requiredKeys (ps ! i) =
                (case lookup d ''required_keys'' of
                   None \<Rightarrow> JArr []
                 | Some v \<Rightarrow> if truthy v then v else JArr []))"
proof -
  from assms(1-4) obtain ps where ps: "snd (getProvidersList env) = Inr ps"
      "length ps = length items" "\<forall>i<length items. formatItem (items ! i) = Inr (ps ! i)"
    using getProvidersList_items by blast
  from assms(4,5) have nn: "items ! i \<noteq> JNull"
    by (metis nth_mem)
  from ps(3) assms(5) have "formatItem (items ! i) = Inr (ps ! i)" by simp
  with nn have eq: "ps ! i =
     \<lparr> id' = lookup (items ! i) ''id'',
       name = js_or (opt_chain (lookup (items ! i) ''details'') ''name'') (JStr ''Unknown Provider''),
       description = js_or (opt_chain (lookup (items ! i) ''details'') ''description'')
                       (JStr ''No description available.''),
       models = js_or (opt_chain (lookup (items ! i) ''details'') ''models'') (JArr []),
       requiredKeys = js_or (opt_chain (lookup (items ! i) ''details'') ''required_keys'')
                        (JArr []) \<rparr>"
    by (simp add: formatItem_not_null)
  have 1: "id' (ps ! i) = lookup (items ! i) ''id''"
    by (subst eq) simp
  have 2: "ps ! i = \<lparr> id' = lookup (items ! i) ''id'', name = JStr ''Unknown Provider'',
                         description = JStr ''No description available.'',
                         models = JArr [], requiredKeys = JArr [] \<rparr>"
    if "lookup (items ! i) ''details'' = None \<or> lookup (items ! i) ''details'' = Some JNull"
    using that by (subst eq) (auto simp: opt_chain_def js_or_def)
  have 3: "name (ps ! i) =
                (case lookup d ''name'' of
                   None \<Rightarrow> JStr ''Unknown Provider''
                 | Some v \<Rightarrow> if truthy v then v else JStr ''Unknown Provider'') \<and>
              description (ps ! i) =
                (case lookup d ''description'' of
                   None \<Rightarrow> JStr ''No description available.''
                 | Some v \<Rightarrow> if truthy v then v else JStr ''No description available.'') \<and>
              models (ps ! i) =
                (case lookup d ''models'' of
                   None \<Rightarrow> JArr []
                 | Some v \<Rightarrow> if truthy v then v else JArr []) \<and>
              requiredKeys (ps ! i) =
                (case lookup d ''required_keys'' of
                   None \<Rightarrow> JArr []
                 | Some v \<Rightarrow> if truthy v then v else JArr [])"
    if "lookup (items ! i) ''details'' = Some d \<and> d \<noteq> JNull" for d
    using that by (subst eq)+ (simp add: opt_chain_def js_or_def)
  from ps(1,2) 1 2 3 show ?thesis by blast
qed

text \<open>
  An instance: an entry without \<^verbatim>\<open>details\<close>, and an entry whose \<^verbatim>\<open>details\<close> has an
  empty \<^verbatim>\<open>description\<close> and a list of \<^verbatim>\<open>models\<close> only.
\<close>

theorem getProvidersList_defaults_per_field_witness:
  "\<exists>ps. snd (getProvidersList (backend (ok_json (JArr [bare_item, partial_item])) status_500)) =
          Inr ps \<and>
        ps ! 0 = \<lparr> id' = Some (JStr ''groq''), name = JStr ''Unknown Provider'',
                    description = JStr ''No description available.'',
                    models = JArr [], requiredKeys = JArr [] \<rparr> \<and>
        name (ps ! 1) = JStr ''Unknown Provider'' \<and>
        description (ps ! 1) = JStr ''No description available.'' \<and>
        models (ps ! 1) = JArr [JStr ''llama3''] \<and>
        requiredKeys (ps ! 1) = JArr []"
proof -
  let ?items = "[bare_item, partial_item]"
  let ?E = "backend (ok_json (JArr ?items)) status_500"
  let ?r = "\<lparr> ok = True, statusText = ''OK'', json = Inr (JArr ?items) \<rparr>"
  let ?d = "JObj [(''description'', JStr []), (''models'', JArr [JStr ''llama3''])]"
  have f: "fetch ?E (providersRequest ?E) = Inr ?r"
    by (simp add: backend_def ok_json_def providersRequest_def)
  have n: "JNull \<notin> set ?items"
    by (simp add: example_defs)
  have b: "lookup (?items ! 0) ''details'' = None" "lookup (?items ! 0) ''id'' = Some (JStr ''groq'')"
    by (simp_all add: bare_item_def)
  have p: "lookup (?items ! 1) ''details'' = Some ?d \<and> ?d \<noteq> JNull"
    by (simp add: partial_item_def)
  from getProvidersList_defaults_per_field [of ?E ?r ?items 0] f n b
  obtain ps where ps: "snd (getProvidersList ?E) = Inr ps"
    and 0: "ps ! 0 = \<lparr> id' = Some (JStr ''groq''), name = JStr ''Unknown Provider'',
                    description = JStr ''No description available.'',
                    models = JArr [], requiredKeys = JArr [] \<rparr>"
    by auto
  from getProvidersList_defaults_per_field [of ?E ?r ?items 1] f n p ps
  have "name (ps ! 1) = JStr ''Unknown Provider'' \<and>
        description (ps ! 1) = JStr ''No description available.'' \<and>
        models (ps ! 1) = JArr [JStr ''llama3''] \<and>
        requiredKeys (ps ! 1) = JArr []"
    by auto
  with ps 0 show ?thesis by blast
qed

section \<open>A non-success status of the catalog endpoint\<close>

text \<open>
  C5. When the response to the catalog GET has a non-success status,
  \<^verbatim>\<open>getProvidersList\<close> fails with an \<^verbatim>\<open>Error\<close> whose message is
  \<^verbatim>\<open>"Failed to fetch providers: "\<close> followed by the status text of the response; it
  returns no list, and it has sent nothing but the GET.
\<close>

theorem getProvidersList_non_success:
  assumes "fetch env (providersRequest env) = Inr r" and "\<not> ok r"
  shows "getProvidersList env =
           ([Fetch (providersRequest env)],
            Inl (Error (''Failed to fetch providers: '' @ statusText r)))"
  using assms by (simp add: getProvidersList_def)

text \<open>
  An instance: a catalog endpoint answering with status 500.
\<close>

theorem getProvidersList_non_success_witness:
  "getProvidersList (backend status_500 (ok_json openai_cohere)) =
     ([Fetch \<lparr> method' = ''GET'', url = ''http://127.0.0.1:3000/agent/providers'',
               headers = [], body = None \<rparr>],
      Inl (Error ''Failed to fetch providers: Internal Server Error''))"
proof -
  let ?E = "backend status_500 (ok_json openai_cohere)"
  let ?r = "\<lparr> ok = False, statusText = ''Internal Server Error'', json = Inl SyntaxError \<rparr>"
  have "fetch ?E (providersRequest ?E) = Inr ?r"
    by (simp add: backend_def status_500_def providersRequest_def)
  from getProvidersList_non_success [OF this]
  show ?thesis by (simp add: providersRequest_def backend_def)
qed

section \<open>Order of the catalog\<close>

text \<open>
  C8. For every successful catalog response whose body is an array of entries (none of
  them \<^verbatim>\<open>null\<close>), \<^verbatim>\<open>getProvidersList\<close> returns one record per entry, in the order of
  the response: the record at position \<open>i\<close> is what the callback makes of the entry at
  position \<open>i\<close>.
\<close>

theorem getProvidersList_order:
  assumes "fetch env (providersRequest env) = Inr r" and "ok r" and "json r = Inr (JArr items)"
    and "JNull \<notin> set items"
  shows "\<exists>ps. snd (getProvidersList env) = Inr ps \<and> length ps = length items \<and>
              (\<forall>i<length items. formatItem (items ! i) = Inr (ps ! i))"
  using assms by (simp add: getProvidersList_ok format_items)

text \<open>
  An instance: a catalog of two entries.
\<close>

theorem getProvidersList_order_witness:
  "\<exists>ps. snd (getProvidersList (backend (ok_json (JArr [full_item, bare_item])) status_500)) =
          Inr ps \<and>
        length ps = Suc (Suc 0) \<and>
        formatItem full_item = Inr (ps ! 0) \<and> formatItem bare_item = Inr (ps ! 1) \<and>
        id' (ps ! 0) = Some (JStr ''openai'') \<and> id' (ps ! 1) = Some (JStr ''groq'')"
proof -
  let ?items = "[full_item, bare_item]"
  let ?E = "backend (ok_json (JArr ?items)) status_500"
  let ?r = "\<lparr> ok = True, statusText = ''OK'', json = Inr (JArr ?items) \<rparr>"
  have f: "fetch ?E (providersRequest ?E) = Inr ?r"
    by (simp add: backend_def ok_json_def providersRequest_def)
  have n: "JNull \<notin> set ?items"
    by (simp add: example_defs)
  from getProvidersList_order [OF f _ _ n]
  obtain ps where ps: "snd (getProvidersList ?E) = Inr ps" "length ps = length ?items"
    "\<forall>i<length ?items. formatItem (?items ! i) = Inr (ps ! i)"
    by auto
  have "(0::nat) < length ?items" and "(1::nat) < length ?items"
    by simp_all
  with ps(3) have "formatItem (?items ! 0) = Inr (ps ! 0)"
    and "formatItem (?items ! 1) = Inr (ps ! 1)"
    by blast+
  then have a: "formatItem full_item = Inr (ps ! 0)" and b: "formatItem bare_item = Inr (ps ! 1)"
    by simp_all
  have "\<exists>p. formatItem full_item = Inr p \<and> id' p = Some (JStr ''openai'')"
    by (simp add: formatItem_def get_prop_def full_item_def)
  with a have "id' (ps ! 0) = Some (JStr ''openai'')"
    by auto
  moreover have "\<exists>p. formatItem bare_item = Inr p \<and> id' p = Some (JStr ''groq'')"
    by (simp add: formatItem_def get_prop_def bare_item_def)
  with b have "id' (ps ! 1) = Some (JStr ''groq'')"
    by auto
  ultimately show ?thesis using ps a b by auto
qed


section \<open>Failures of getSecretsSettings\<close>

text \<open>
  C6. When \<^verbatim>\<open>getProvidersList\<close> has returned and the response to the secrets-status POST
  has a non-success status, \<^verbatim>\<open>getSecretsSettings\<close> fails with the \<^verbatim>\<open>Error\<close> whose
  message is \<^verbatim>\<open>"Failed to fetch secrets"\<close>. When \<^verbatim>\<open>getProvidersList\<close> fails,
  \<^verbatim>\<open>getSecretsSettings\<close> fails with the same error, having done nothing more.
\<close>

theorem getSecretsSettings_failures:
  "(\<forall>t ps r. getProvidersList env = (t, Inr ps) \<and>
             fetch env (secretsRequest env (map id' ps)) = Inr r \<and> \<not> ok r \<longrightarrow>
      snd (getSecretsSettings env) = Inl (Error ''Failed to fetch secrets'')) \<and>
   (\<forall>t e. getProvidersList env = (t, Inl e) \<longrightarrow> getSecretsSettings env = (t, Inl e))"
  by (simp add: getSecretsSettings_def)

text \<open>
  Instances: a secrets endpoint answering with status 500, and a catalog endpoint
  answering with status 500.
\<close>

theorem getSecretsSettings_failures_witness:
  "snd (getProvidersList (backend (ok_json (JArr [bare_item])) status_500)) =
     Inr [\<lparr> id' = Some (JStr ''groq''), name = JStr ''Unknown Provider'',
            description = JStr ''No description available.'', models = JArr [],
            requiredKeys = JArr [] \<rparr>] \<and>
   snd (getSecretsSettings (backend (ok_json (JArr [bare_item])) status_500)) =
     Inl (Error ''Failed to fetch secrets'') \<and>
   getProvidersList (backend status_500 (ok_json openai_cohere)) =
     ([Fetch \<lparr> method' = ''GET'', url = ''http://127.0.0.1:3000/agent/providers'',
               headers = [], body = None \<rparr>],
      Inl (Error ''Failed to fetch providers: Internal Server Error'')) \<and>
   getSecretsSettings (backend status_500 (ok_json openai_cohere)) =
     ([Fetch \<lparr> method' = ''GET'', url = ''http://127.0.0.1:3000/agent/providers'',
               headers = [], body = None \<rparr>],
      Inl (Error ''Failed to fetch providers: Internal Server Error''))"
proof -
  let ?E = "backend (ok_json (JArr [bare_item])) status_500"
  let ?F = "backend status_500 (ok_json openai_cohere)"
  let ?ps = "[\<lparr> id' = Some (JStr ''groq''), name = JStr ''Unknown Provider'',
            description = JStr ''No description available.'', models = JArr [],
            requiredKeys = JArr [] \<rparr>]"
  let ?r = "\<lparr> ok = False, statusText = ''Internal Server Error'', json = Inl SyntaxError \<rparr>"
  obtain t where t: "getProvidersList ?E = (t, Inr ?ps)"
    by (simp add: model_defs example_defs)
  have r: "fetch ?E (secretsRequest ?E (map id' ?ps)) = Inr ?r \<and> \<not> ok ?r"
    by (simp add: backend_def status_500_def secretsRequest_def)
  from t r getSecretsSettings_failures [of ?E]
  have 1: "snd (getSecretsSettings ?E) = Inl (Error ''Failed to fetch secrets'')"
    by blast
  let ?u = "[Fetch \<lparr> method' = ''GET'', url = ''http://127.0.0.1:3000/agent/providers'',
               headers = [], body = None \<rparr>]"
  have u: "getProvidersList ?F =
      (?u, Inl (Error ''Failed to fetch providers: Internal Server Error''))"
    by (simp add: model_defs)
  from u getSecretsSettings_failures [of ?F]
  have 2: "getSecretsSettings ?F =
      (?u, Inl (Error ''Failed to fetch providers: Internal Server Error''))"
    by blast
  from t 1 u 2 show ?thesis by simp
qed

section \<open>The request of getSecretsSettings\<close>

text \<open>
  C7. When \<^verbatim>\<open>getProvidersList\<close> has returned the providers \<open>ps\<close>,
  \<^verbatim>\<open>getSecretsSettings\<close> sends exactly one POST: to the path
  \<^verbatim>\<open>/secrets/providers\<close>, with the configured secret key in the header
  \<^verbatim>\<open>X-Secret-Key\<close>, and with the body \<^verbatim>\<open>{ providers: [...] }\<close> whose array has one
  element per provider of \<open>ps\<close>, in the same order: what \<^verbatim>\<open>JSON.stringify\<close> writes for
  the \<^verbatim>\<open>id\<close> of that provider. When the identifiers are strings, as the type
  \<^verbatim>\<open>Provider\<close> declares, the array is exactly the sequence of the identifiers.
\<close>

theorem getSecretsSettings_sends_one_post:
  assumes "getProvidersList env = (t, Inr ps)"
  shows "posts (fst (getSecretsSettings env)) =
           [\<lparr> method' = ''POST'', url = getApiUrl env ''/secrets/providers'',
              headers = [(''Content-Type'', ''application/json''),
                         (''X-Secret-Key'', getSecretKey env)],
              body = Some (JObj [(''providers'',
                                  JArr (map (\<lambda>p. stringify_element (id' p)) ps))]) \<rparr>] \<and>
         (\<forall>names. map id' ps = map (\<lambda>n. Some (JStr n)) names \<longrightarrow>
            map body (posts (fst (getSecretsSettings env))) =
              [Some (JObj [(''providers'', JArr (map JStr names))])])"
proof -
  let ?req = "secretsRequest env (map id' ps)"
  from assms have "posts t = []"
    using posts_getProvidersList [of env] by simp
  moreover from assms have "\<exists>rest. fst (getSecretsSettings env) = t @ Fetch ?req # rest \<and>
      posts rest = []"
    by (auto simp: getSecretsSettings_def Let_def split: sum.splits)
  ultimately have "posts (fst (getSecretsSettings env)) = [?req]"
    by (auto simp: posts_append secretsRequest_def)
  then have one: "posts (fst (getSecretsSettings env)) =
           [\<lparr> method' = ''POST'', url = getApiUrl env ''/secrets/providers'',
              headers = [(''Content-Type'', ''application/json''),
                         (''X-Secret-Key'', getSecretKey env)],
              body = Some (JObj [(''providers'',
                                  JArr (map (\<lambda>p. stringify_element (id' p)) ps))]) \<rparr>]"
    by (simp add: secretsRequest_def comp_def)
  have conv: "map (\<lambda>p. stringify_element (id' p)) ps = map JStr names"
    if "map id' ps = map (\<lambda>n. Some (JStr n)) names" for names
  proof -
    have "map (\<lambda>p. stringify_element (id' p)) ps = map stringify_element (map id' ps)"
      by simp
    also have "\<dots> = map stringify_element (map (\<lambda>n. Some (JStr n)) names)"
      by (simp only: that)
    also have "\<dots> = map JStr names"
      by (induction names) (simp_all add: stringify_element_def)
    finally show ?thesis .
  qed
  from one conv show ?thesis by simp
qed

text \<open>
  Instances: a catalog of two entries with the identifiers \<^verbatim>\<open>"openai"\<close> and
  \<^verbatim>\<open>"groq"\<close>, and a catalog whose only entry has the number \<^verbatim>\<open>1e400\<close> in the place
  of its identifier, which is sent as \<^verbatim>\<open>null\<close>.
\<close>

theorem getSecretsSettings_sends_one_post_witness:
  "posts (fst (getSecretsSettings (backend (ok_json (JArr [full_item, bare_item])) status_500))) =
     [\<lparr> method' = ''POST'', url = ''http://127.0.0.1:3000/secrets/providers'',
        headers = [(''Content-Type'', ''application/json''), (''X-Secret-Key'', ''test-key'')],
        body = Some (JObj [(''providers'', JArr [JStr ''openai'', JStr ''groq''])]) \<rparr>] \<and>
   posts (fst (getSecretsSettings (backend (ok_json (JArr [overflow_item])) status_500))) =
     [\<lparr> method' = ''POST'', url = ''http://127.0.0.1:3000/secrets/providers'',
        headers = [(''Content-Type'', ''application/json''), (''X-Secret-Key'', ''test-key'')],
        body = Some (JObj [(''providers'', JArr [JNull])]) \<rparr>]"
proof -
  let ?E = "backend (ok_json (JArr [full_item, bare_item])) status_500"
  let ?F = "backend (ok_json (JArr [overflow_item])) status_500"
  obtain t ps where g: "getProvidersList ?E = (t, Inr ps)"
    and ids: "map id' ps = map (\<lambda>n. Some (JStr n)) [''openai'', ''groq'']"
    by (simp add: model_defs example_defs)
  obtain u qs where h: "getProvidersList ?F = (u, Inr qs)"
    and inf: "map id' qs = [Some (JInf True)]"
    by (simp add: model_defs example_defs)
  have e: "getApiUrl ?E ''/secrets/providers'' = ''http://127.0.0.1:3000/secrets/providers''"
    "getSecretKey ?E = ''test-key''"
    by (simp_all add: backend_def)
  have f: "getApiUrl ?F ''/secrets/providers'' = ''http://127.0.0.1:3000/secrets/providers''"
    "getSecretKey ?F = ''test-key''"
    by (simp_all add: backend_def)
  have "map stringify_element (map id' ps) =
        map stringify_element (map (\<lambda>n. Some (JStr n)) [''openai'', ''groq''])"
    by (simp only: ids)
  then have b: "map (\<lambda>p. stringify_element (id' p)) ps = [JStr ''openai'', JStr ''groq'']"
    by (simp add: stringify_element_def comp_def)
  have "map stringify_element (map id' qs) = map stringify_element [Some (JInf True)]"
    by (simp only: inf)
  then have c: "map (\<lambda>p. stringify_element (id' p)) qs = [JNull]"
    by (simp add: stringify_element_def comp_def)
  note one = getSecretsSettings_sends_one_post [OF g, THEN conjunct1]
  note strings = getSecretsSettings_sends_one_post [OF g, THEN conjunct2, rule_format, OF ids]
  note other = getSecretsSettings_sends_one_post [OF h, THEN conjunct1]
  from strings have "map body (posts (fst (getSecretsSettings ?E))) =
      [Some (JObj [(''providers'', JArr [JStr ''openai'', JStr ''groq''])])]"
    by simp
  moreover from one have "posts (fst (getSecretsSettings ?E)) =
     [\<lparr> method' = ''POST'', url = ''http://127.0.0.1:3000/secrets/providers'',
        headers = [(''Content-Type'', ''application/json''), (''X-Secret-Key'', ''test-key'')],
        body = Some (JObj [(''providers'', JArr [JStr ''openai'', JStr ''groq''])]) \<rparr>]"
    by (simp only: e b)
  moreover from other have "posts (fst (getSecretsSettings ?F)) =
     [\<lparr> method' = ''POST'', url = ''http://127.0.0.1:3000/secrets/providers'',
        headers = [(''Content-Type'', ''application/json''), (''X-Secret-Key'', ''test-key'')],
        body = Some (JObj [(''providers'', JArr [JNull])]) \<rparr>]"
    by (simp only: f c)
  ultimately show ?thesis by blast
qed

section \<open>Empty strings\<close>

text \<open>
  C9. A default replaces a value that is present but falsy. For every raw catalog entry
  whose \<^verbatim>\<open>details.name\<close> is the empty string, the \<^verbatim>\<open>name\<close> of the record that
  \<^verbatim>\<open>getProvidersList\<close> returns for it is \<^verbatim>\<open>"Unknown Provider"\<close>; likewise an empty
  \<^verbatim>\<open>details.description\<close> becomes \<^verbatim>\<open>"No description available."\<close>. In
  \<^verbatim>\<open>getActiveProviders\<close>, a qualifying entry whose \<^verbatim>\<open>name\<close> is the empty string
  contributes \<^verbatim>\<open>"Unknown Provider"\<close> to the result, at its place among the names of the
  entries before and after it.
\<close>

theorem empty_strings_are_defaulted:
  "(\<forall>r items i d.
      fetch env (providersRequest env) = Inr r \<and> ok r \<and> json r = Inr (JArr items) \<and>
      JNull \<notin> set items \<and> i < length items \<and> lookup (items ! i) ''details'' = Some d \<longrightarrow>
      (\<exists>ps. snd (getProvidersList env) = Inr ps \<and>
         (lookup d ''name'' = Some (JStr []) \<longrightarrow> name (ps ! i) = JStr ''Unknown Provider'') \<and>
         (lookup d ''description'' = Some (JStr []) \<longrightarrow>
            description (ps ! i) = JStr ''No description available.''))) \<and>
   (\<forall>before k p after.
      snd (getSecretsSettings env) = Inr (JObj (before @ (k, p) # after)) \<and>
      list_all is_ProviderResponse (map snd (before @ (k, p) # after)) \<and>
      some_key_set p \<and> lookup p ''name'' = Some (JStr []) \<longrightarrow>
      snd (getActiveProviders env) =
        Inr (map name_or_default_when_absent_or_empty (filter some_key_set (map snd before)) @
             JStr ''Unknown Provider'' #
             map name_or_default_when_absent_or_empty (filter some_key_set (map snd after))))"
proof (intro conjI allI impI)
  fix r items i d
  assume h: "fetch env (providersRequest env) = Inr r \<and> ok r \<and> json r = Inr (JArr items) \<and>
      JNull \<notin> set items \<and> i < length items \<and> lookup (items ! i) ''details'' = Some d"
  then obtain ps where ps: "snd (getProvidersList env) = Inr ps"
      "\<forall>i<length items. formatItem (items ! i) = Inr (ps ! i)"
    using getProvidersList_items by blast
  from h have nn: "items ! i \<noteq> JNull"
    by (metis nth_mem)
  from ps(2) h have "formatItem (items ! i) = Inr (ps ! i)" by simp
  with nn have eq: "ps ! i =
     \<lparr> id' = lookup (items ! i) ''id'',
       name = js_or (opt_chain (lookup (items ! i) ''details'') ''name'') (JStr ''Unknown Provider''),
       description = js_or (opt_chain (lookup (items ! i) ''details'') ''description'')
                       (JStr ''No description available.''),
       models = js_or (opt_chain (lookup (items ! i) ''details'') ''models'') (JArr []),
       requiredKeys = js_or (opt_chain (lookup (items ! i) ''details'') ''required_keys'')
                        (JArr []) \<rparr>"
    by (simp add: formatItem_not_null)
  have "name (ps ! i) = JStr ''Unknown Provider''" if "lookup d ''name'' = Some (JStr [])"
    using that h by (subst eq) (auto simp: opt_chain_def js_or_def)
  moreover have "description (ps ! i) = JStr ''No description available.''"
    if "lookup d ''description'' = Some (JStr [])"
    using that h by (subst eq) (auto simp: opt_chain_def js_or_def)
  ultimately show "\<exists>ps. snd (getProvidersList env) = Inr ps \<and>
         (lookup d ''name'' = Some (JStr []) \<longrightarrow> name (ps ! i) = JStr ''Unknown Provider'') \<and>
         (lookup d ''description'' = Some (JStr []) \<longrightarrow>
            description (ps ! i) = JStr ''No description available.'')"
    using ps(1) by blast
next
  fix before k p after
  assume h: "snd (getSecretsSettings env) = Inr (JObj (before @ (k, p) # after)) \<and>
      list_all is_ProviderResponse (map snd (before @ (k, p) # after)) \<and>
      some_key_set p \<and> lookup p ''name'' = Some (JStr [])"
  then have "snd (getActiveProviders env) =
      Inr (map name_or_default_when_absent_or_empty
             (filter some_key_set (map snd (before @ (k, p) # after))))"
    by (simp only: getActiveProviders_typed)
  moreover from h have "name_or_default_when_absent_or_empty p = JStr ''Unknown Provider''"
    by (simp add: name_or_default_when_absent_or_empty_def)
  ultimately show "snd (getActiveProviders env) =
        Inr (map name_or_default_when_absent_or_empty (filter some_key_set (map snd before)) @
             JStr ''Unknown Provider'' #
             map name_or_default_when_absent_or_empty (filter some_key_set (map snd after)))"
    using h by simp
qed

text \<open>
  An instance: a catalog with an empty name in its first entry and an empty description
  in its second, and a secrets-status mapping whose only entry has an empty name.
\<close>

theorem empty_strings_are_defaulted_witness:
  "(\<exists>ps. snd (getProvidersList (backend (ok_json (JArr [empty_name_item, partial_item]))
                                  (ok_json empty_name_secrets))) = Inr ps \<and>
         name (ps ! 0) = JStr ''Unknown Provider'' \<and>
         description (ps ! 1) = JStr ''No description available.'') \<and>
   snd (getActiveProviders (backend (ok_json (JArr [empty_name_item, partial_item]))
                              (ok_json empty_name_secrets))) = Inr [JStr ''Unknown Provider'']"
proof -
  let ?items = "[empty_name_item, partial_item]"
  let ?E = "backend (ok_json (JArr ?items)) (ok_json empty_name_secrets)"
  let ?r = "\<lparr> ok = True, statusText = ''OK'', json = Inr (JArr ?items) \<rparr>"
  let ?d0 = "JObj [(''name'', JStr []), (''description'', JStr ''GPT models''),
                   (''models'', JArr [JStr ''gpt-4o'']),
                   (''required_keys'', JArr [JStr ''OPENAI_API_KEY''])]"
  let ?d1 = "JObj [(''description'', JStr []), (''models'', JArr [JStr ''llama3''])]"
  let ?p = "JObj [(''name'', JStr []),
                  (''secret_status'', JObj [(''API_KEY'', JObj [(''is_set'', JBool True)])])]"
  have h0: "fetch ?E (providersRequest ?E) = Inr ?r \<and> ok ?r \<and> json ?r = Inr (JArr ?items) \<and>
      JNull \<notin> set ?items \<and> 0 < length ?items \<and> lookup (?items ! 0) ''details'' = Some ?d0"
    by (simp add: backend_def ok_json_def providersRequest_def example_defs)
  have h1: "fetch ?E (providersRequest ?E) = Inr ?r \<and> ok ?r \<and> json ?r = Inr (JArr ?items) \<and>
      JNull \<notin> set ?items \<and> 1 < length ?items \<and> lookup (?items ! 1) ''details'' = Some ?d1"
    by (simp add: backend_def ok_json_def providersRequest_def example_defs)
  have n0: "lookup ?d0 ''name'' = Some (JStr [])"
    by simp
  have n1: "lookup ?d1 ''description'' = Some (JStr [])"
    by simp
  have s: "snd (getSecretsSettings ?E) = Inr (JObj ([] @ (''custom'', ?p) # [])) \<and>
           list_all is_ProviderResponse (map snd ([] @ (''custom'', ?p) # [])) \<and>
           some_key_set ?p \<and> lookup ?p ''name'' = Some (JStr [])"
    by (simp add: model_defs example_defs is_ProviderResponse_def is_SecretStatus_def
          some_key_set_def)
  have catalog: "\<forall>r items i d.
      fetch ?E (providersRequest ?E) = Inr r \<and> ok r \<and> json r = Inr (JArr items) \<and>
      JNull \<notin> set items \<and> i < length items \<and> lookup (items ! i) ''details'' = Some d \<longrightarrow>
      (\<exists>ps. snd (getProvidersList ?E) = Inr ps \<and>
         (lookup d ''name'' = Some (JStr []) \<longrightarrow> name (ps ! i) = JStr ''Unknown Provider'') \<and>
         (lookup d ''description'' = Some (JStr []) \<longrightarrow>
            description (ps ! i) = JStr ''No description available.''))"
    using empty_strings_are_defaulted [of ?E] by (rule conjunct1)
  have active: "\<forall>before k p after.
      snd (getSecretsSettings ?E) = Inr (JObj (before @ (k, p) # after)) \<and>
      list_all is_ProviderResponse (map snd (before @ (k, p) # after)) \<and>
      some_key_set p \<and> lookup p ''name'' = Some (JStr []) \<longrightarrow>
      snd (getActiveProviders ?E) =
        Inr (map name_or_default_when_absent_or_empty (filter some_key_set (map snd before)) @
             JStr ''Unknown Provider'' #
             map name_or_default_when_absent_or_empty (filter some_key_set (map snd after)))"
    using empty_strings_are_defaulted [of ?E] by (rule conjunct2)
  from catalog [rule_format, OF h0] n0
  obtain ps where ps: "snd (getProvidersList ?E) = Inr ps"
    and 0: "name (ps ! 0) = JStr ''Unknown Provider''"
    by auto
  from catalog [rule_format, OF h1] n1
  obtain qs where qs: "snd (getProvidersList ?E) = Inr qs"
    and 1: "description (qs ! 1) = JStr ''No description available.''"
    by auto
  from ps qs have "qs = ps" by simp
  with 1 have 1: "description (ps ! 1) = JStr ''No description available.''" by simp
  from active [rule_format, OF s]
  have "snd (getActiveProviders ?E) = Inr [JStr ''Unknown Provider'']"
    by simp
  with ps 0 1 show ?thesis by blast
qed

section \<open>No deduplication\<close>

text \<open>
  C10. For every secrets-status mapping whose entries have the declared shape, the result
  of \<^verbatim>\<open>getActiveProviders\<close> has one element per qualifying entry: its length is the
  number of qualifying entries, and each name occurs in it as many times as there are
  qualifying entries with that display name.
\<close>

theorem getActiveProviders_no_deduplication:
  assumes "snd (getSecretsSettings env) = Inr (JObj kvs)"
    and "list_all is_ProviderResponse (map snd kvs)"
  shows "\<exists>names. snd (getActiveProviders env) = Inr names \<and>
           length names = length (filter some_key_set (map snd kvs)) \<and>
           (\<forall>n. count_list names n =
                length (filter (\<lambda>p. some_key_set p \<and> name_or_default_when_absent_or_empty p = n)
                          (map snd kvs)))"
proof -
  let ?names = "map name_or_default_when_absent_or_empty (filter some_key_set (map snd kvs))"
  from assms have "snd (getActiveProviders env) = Inr ?names"
    by (rule getActiveProviders_typed)
  moreover have "length ?names = length (filter some_key_set (map snd kvs))"
    by simp
  moreover have "count_list ?names n =
      length (filter (\<lambda>p. some_key_set p \<and> name_or_default_when_absent_or_empty p = n)
                (map snd kvs))" for n
    by (simp only: count_list_map_filter filter_filter conj_commute)
  ultimately show ?thesis by blast
qed

text \<open>
  An instance: two qualifying entries that share the name \<^verbatim>\<open>"OpenAI"\<close>.
\<close>

theorem getActiveProviders_no_deduplication_witness:
  "\<exists>names. snd (getActiveProviders (backend (ok_json (JArr [])) (ok_json same_name_secrets))) =
             Inr names \<and>
           length names = 2 \<and> count_list names (JStr ''OpenAI'') = 2"
proof -
  let ?E = "backend (ok_json (JArr [])) (ok_json same_name_secrets)"
  let ?kvs = "[(''azure'', JObj [(''name'', JStr ''OpenAI''),
                             (''secret_status'',
                              JObj [(''AZURE_KEY'', JObj [(''is_set'', JBool True)])])]),
           (''openai'', JObj [(''name'', JStr ''OpenAI''),
                              (''secret_status'',
                               JObj [(''OPENAI_API_KEY'', JObj [(''is_set'', JBool True)])])])]"
  have s: "snd (getSecretsSettings ?E) = Inr (JObj ?kvs)"
    by (simp add: model_defs example_defs)
  have t: "list_all is_ProviderResponse (map snd ?kvs)"
    by (simp add: is_ProviderResponse_def is_SecretStatus_def)
  have a: "length (filter some_key_set (map snd ?kvs)) = 2"
    by (simp add: some_key_set_def)
  have b: "length (filter (\<lambda>p. some_key_set p \<and>
                name_or_default_when_absent_or_empty p = JStr ''OpenAI'') (map snd ?kvs)) = 2"
    by (simp add: some_key_set_def name_or_default_when_absent_or_empty_def)
  from getActiveProviders_no_deduplication [OF s t]
  obtain names where "snd (getActiveProviders ?E) = Inr names"
    and "length names = length (filter some_key_set (map snd ?kvs))"
    and "\<forall>n. count_list names n =
           length (filter (\<lambda>p. some_key_set p \<and> name_or_default_when_absent_or_empty p = n)
                     (map snd ?kvs))"
    by blast
  with a b show ?thesis by simp
qed

end
